theory Spec2Isabelle
  imports Main "HOL-Library.Word"
begin

section \<open>Strings of the gateway\<close>

text \<open>
  The gateway is TypeScript: a string is a sequence of UTF-16 code units. Identifiers
  (room, chat, user, socket and message ids) and message contents are such strings.
  The texts the server itself emits in \<open>error\<close> events are ASCII constants of the
  source and are kept as HOL string literals.
\<close>

type_synonym js_string = "16 word list"

definition str :: "string \<Rightarrow> js_string" where
  "str s = map (\<lambda>c. of_nat (of_char c)) s"

text \<open>
  \<open>String.prototype.trim\<close> removes white space and line terminators from both ends:
  TAB, LF, VT, FF, CR, SP, NBSP, U+1680, U+2000 to U+200A, LS, PS, U+202F, U+205F,
  U+3000 and the byte order mark. All of them are single code units.
\<close>

definition is_white_space :: "16 word \<Rightarrow> bool" where
  "is_white_space c \<longleftrightarrow>
     c = 0x9 \<or> c = 0xA \<or> c = 0xB \<or> c = 0xC \<or> c = 0xD \<or> c = 0x20 \<or> c = 0xA0 \<or>
     c = 0x1680 \<or> (0x2000 \<le> c \<and> c \<le> 0x200A) \<or> c = 0x2028 \<or> c = 0x2029 \<or>
     c = 0x202F \<or> c = 0x205F \<or> c = 0x3000 \<or> c = 0xFEFF"

definition trim :: "js_string \<Rightarrow> js_string" where
  "trim s = rev (dropWhile is_white_space (rev (dropWhile is_white_space s)))"

section \<open>Data model\<close>

text \<open>
  \<open>SocketUser\<close> and \<open>AuthenticatedSocket\<close> of the socket module. The field \<open>id\<close> of
  the source is \<open>user_id\<close> here. \<open>rooms\<close> is the socket's set of transport rooms
  (\<open>socket.rooms\<close>), changed by \<open>socket.join\<close> and \<open>socket.leave\<close>.
\<close>

record socket_user =
  user_id :: js_string
  username :: js_string
  role :: js_string
  fullName :: "js_string option"
  avatar :: "js_string option"

record conn =
  socket_id :: js_string
  user :: socket_user
  currentRoom :: "js_string option"
  rooms :: "js_string set"

text \<open>
  The rows the handlers read and write. A room is read together with its pod
  (\<open>include: { pod: { select: { id, ownerId } } }\<close>), so the row carries both fields.
  \<open>podMember\<close> and \<open>chatParticipant\<close> are keyed by the pair the source looks up
  (\<open>podId_userId\<close>, \<open>chatId_userId\<close>). A chat row holds its \<open>updatedAt\<close>.
\<close>

record pod_row =
  pod_id :: js_string
  ownerId :: js_string

record room_row =
  pod :: pod_row

record message_row =
  message_id :: js_string
  content :: js_string
  roomId :: "js_string option"
  chatId :: "js_string option"
  senderId :: js_string
  createdAt :: int

record database =
  db_room :: "js_string \<rightharpoonup> room_row"
  db_podMember :: "(js_string \<times> js_string) set"
  db_chat :: "js_string \<rightharpoonup> int"
  db_chatParticipant :: "(js_string \<times> js_string) set"
  db_message :: "message_row list"

text \<open>
  What a handler takes from outside the code: the id the store gives a new row, the
  store's clock (the default of \<open>createdAt\<close>) and the value of \<open>new Date()\<close>.
\<close>

record env =
  new_id :: js_string
  db_now :: int
  date_now :: int

subsection \<open>Events sent to clients\<close>

datatype server_event =
    Error string
  | User_joined js_string js_string "js_string option" "js_string option" int
  | Room_joined js_string
  | User_left js_string js_string int
  | Room_left js_string
  | New_message message_row
  | User_typing js_string js_string js_string
  | User_stopped_typing js_string js_string js_string
  | Chat_joined js_string
  | New_dm message_row
  | Dm_user_typing js_string js_string js_string
  | Dm_user_stopped_typing js_string js_string js_string
  | Notifications_joined

text \<open>
  The three ways the source emits: \<open>socket.emit\<close> (to the socket itself),
  \<open>socket.to(room).emit\<close> (to the sockets of a transport room other than the socket
  itself) and \<open>io.to(room).emit\<close> (to every socket of a transport room).
\<close>

datatype emit =
    To_socket js_string server_event
  | To_others js_string js_string server_event
  | To_channel js_string server_event

fun receives :: "conn \<Rightarrow> emit \<Rightarrow> bool" where
  "receives c (To_socket s e) = (socket_id c = s)"
| "receives c (To_others ch s e) = (ch \<in> rooms c \<and> socket_id c \<noteq> s)"
| "receives c (To_channel ch e) = (ch \<in> rooms c)"

fun payload :: "emit \<Rightarrow> server_event" where
  "payload (To_socket s e) = e"
| "payload (To_others ch s e) = e"
| "payload (To_channel ch e) = e"

definition chat_channel :: "js_string \<Rightarrow> js_string" where
  "chat_channel cid = str ''chat:'' @ cid"

definition user_channel :: "js_string \<Rightarrow> js_string" where
  "user_channel uid = str ''user:'' @ uid"

section \<open>Room session handlers\<close>

text \<open>
  Each handler is one step: the lookups it awaits come before any change it makes to
  the socket. A lookup is a read of the store's tables and is taken to be answered.
  The \<open>catch\<close> branch of a handler is reached where a write fails: a message whose
  content the store refuses, an update of a chat row that is not there.
\<close>

definition join_room :: "database \<Rightarrow> env \<Rightarrow> conn \<Rightarrow> js_string \<Rightarrow> conn \<times> emit list" where
  "join_room db ev c rid =
     (case db_room db rid of
        None \<Rightarrow> (c, [To_socket (socket_id c) (Error ''Room not found'')])
      | Some room \<Rightarrow>
          let isMember = ((pod_id (pod room), user_id (user c)) \<in> db_podMember db);
              isOwner = (ownerId (pod room) = user_id (user c))
          in if \<not> isMember \<and> \<not> isOwner
             then (c, [To_socket (socket_id c)
                         (Error ''You must be a member of this pod to join this room'')])
             else (c\<lparr>rooms := insert rid (rooms c), currentRoom := Some rid\<rparr>,
                   [To_others rid (socket_id c)
                      (User_joined (user_id (user c)) (username (user c))
                         (fullName (user c)) (avatar (user c)) (date_now ev)),
                    To_socket (socket_id c) (Room_joined rid)]))"

definition leave_room :: "env \<Rightarrow> conn \<Rightarrow> js_string \<Rightarrow> conn \<times> emit list" where
  "leave_room ev c rid =
     (if currentRoom c = Some rid
      then (c\<lparr>rooms := rooms c - {rid}, currentRoom := None\<rparr>,
            [To_others rid (socket_id c)
               (User_left (user_id (user c)) (username (user c)) (date_now ev)),
             To_socket (socket_id c) (Room_left rid)])
      else (c, []))"

definition typing_start :: "conn \<Rightarrow> js_string \<Rightarrow> emit list" where
  "typing_start c rid =
     (if currentRoom c = Some rid
      then [To_others rid (socket_id c)
              (User_typing (user_id (user c)) (username (user c)) rid)]
      else [])"

definition typing_stop :: "conn \<Rightarrow> js_string \<Rightarrow> emit list" where
  "typing_stop c rid =
     (if currentRoom c = Some rid
      then [To_others rid (socket_id c)
              (User_stopped_typing (user_id (user c)) (username (user c)) rid)]
      else [])"

definition disconnect :: "env \<Rightarrow> conn \<Rightarrow> emit list" where
  "disconnect ev c =
     (case currentRoom c of
        None \<Rightarrow> []
      | Some rid \<Rightarrow>
          if rid = [] then []
          else [To_others rid (socket_id c)
                  (User_left (user_id (user c)) (username (user c)) (date_now ev))])"

text \<open>
  On connection the socket joins the notification channel of its user. The transport
  library has already put it into the room named by its own socket id.
\<close>

definition on_connection :: "js_string \<Rightarrow> socket_user \<Rightarrow> conn" where
  "on_connection sid u =
     \<lparr>socket_id = sid, user = u, currentRoom = None,
      rooms = {sid, user_channel (user_id u)}\<rparr>"

definition join_notifications :: "conn \<Rightarrow> conn \<times> emit list" where
  "join_notifications c =
     (c\<lparr>rooms := insert (user_channel (user_id (user c))) (rooms c)\<rparr>,
      [To_socket (socket_id c) Notifications_joined])"

section \<open>Message pipeline\<close>

text \<open>
  The store is PostgreSQL behind Prisma (README); its schema and client are not among
  the sources. A text value reaches it as UTF-8: a surrogate code unit that is not
  part of a pair arrives as U+FFFD, and a value with U+0000 is refused.
\<close>

definition is_high_surrogate :: "16 word \<Rightarrow> bool" where
  "is_high_surrogate c \<longleftrightarrow> 0xD800 \<le> c \<and> c \<le> 0xDBFF"

definition is_low_surrogate :: "16 word \<Rightarrow> bool" where
  "is_low_surrogate c \<longleftrightarrow> 0xDC00 \<le> c \<and> c \<le> 0xDFFF"

fun to_well_formed :: "js_string \<Rightarrow> js_string" where
  "to_well_formed [] = []"
| "to_well_formed [c] =
     (if is_high_surrogate c \<or> is_low_surrogate c then [0xFFFD] else [c])"
| "to_well_formed (c # d # s) =
     (if is_high_surrogate c \<and> is_low_surrogate d then c # d # to_well_formed s
      else if is_high_surrogate c \<or> is_low_surrogate c then 0xFFFD # to_well_formed (d # s)
      else c # to_well_formed (d # s))"

definition store_text :: "js_string \<Rightarrow> js_string option" where
  "store_text s = (if 0 \<in> set s then None else Some (to_well_formed s))"

text \<open>
  \<open>prisma.message.create\<close> stores the content, the one value of the row that the
  client chooses freely (the ids of the row have been read from the store before),
  appends the row and returns it as stored; when the store refuses the content
  nothing is written and the call throws, which the handler's \<open>catch\<close> branch
  reports. \<open>prisma.chat.update\<close> fails when there is no row with that id.
\<close>

definition message_create :: "database \<Rightarrow> message_row \<Rightarrow> (database \<times> message_row) option" where
  "message_create db m =
     (case store_text (content m) of
        None \<Rightarrow> None
      | Some t \<Rightarrow>
          let row = m\<lparr>content := t\<rparr>
          in Some (db\<lparr>db_message := db_message db @ [row]\<rparr>, row))"

definition chat_update :: "database \<Rightarrow> js_string \<Rightarrow> int \<Rightarrow> database option" where
  "chat_update db cid t =
     (case db_chat db cid of
        None \<Rightarrow> None
      | Some old \<Rightarrow> Some (db\<lparr>db_chat := (db_chat db)(cid \<mapsto> t)\<rparr>))"

definition send_message ::
  "database \<Rightarrow> env \<Rightarrow> conn \<Rightarrow> js_string \<Rightarrow> js_string \<Rightarrow> database \<times> emit list" where
  "send_message db ev c rid cont =
     (if cont = [] \<or> trim cont = []
      then (db, [To_socket (socket_id c) (Error ''Message content is required'')])
      else
        (case db_room db rid of
           None \<Rightarrow> (db, [To_socket (socket_id c) (Error ''Room not found'')])
         | Some room \<Rightarrow>
             let isMember = ((pod_id (pod room), user_id (user c)) \<in> db_podMember db);
                 isOwner = (ownerId (pod room) = user_id (user c))
             in if \<not> isMember \<and> \<not> isOwner
                then (db, [To_socket (socket_id c)
                             (Error ''You must be a member of this pod to send messages'')])
                else
                  (case message_create db
                          \<lparr>message_id = new_id ev, content = trim cont,
                           roomId = Some rid, chatId = None,
                           senderId = user_id (user c), createdAt = db_now ev\<rparr> of
                     None \<Rightarrow>
                       (db, [To_socket (socket_id c) (Error ''Failed to send message'')])
                   | Some (db1, message) \<Rightarrow>
                       (db1, [To_channel rid (New_message message)]))))"

section \<open>Direct-chat handlers\<close>

definition join_chat :: "database \<Rightarrow> conn \<Rightarrow> js_string \<Rightarrow> conn \<times> emit list" where
  "join_chat db c cid =
     (if (cid, user_id (user c)) \<notin> db_chatParticipant db
      then (c, [To_socket (socket_id c) (Error ''You are not a participant of this chat'')])
      else (c\<lparr>rooms := insert (chat_channel cid) (rooms c)\<rparr>,
            [To_socket (socket_id c) (Chat_joined cid)]))"

definition leave_chat :: "conn \<Rightarrow> js_string \<Rightarrow> conn" where
  "leave_chat c cid = c\<lparr>rooms := rooms c - {chat_channel cid}\<rparr>"

definition send_dm ::
  "database \<Rightarrow> env \<Rightarrow> conn \<Rightarrow> js_string \<Rightarrow> js_string \<Rightarrow> database \<times> emit list" where
  "send_dm db ev c cid cont =
     (if cont = [] \<or> trim cont = []
      then (db, [To_socket (socket_id c) (Error ''Message content is required'')])
      else if (cid, user_id (user c)) \<notin> db_chatParticipant db
      then (db, [To_socket (socket_id c) (Error ''You are not a participant of this chat'')])
      else
        (case message_create db
                \<lparr>message_id = new_id ev, content = trim cont,
                 roomId = None, chatId = Some cid,
                 senderId = user_id (user c), createdAt = db_now ev\<rparr> of
           None \<Rightarrow> (db, [To_socket (socket_id c) (Error ''Failed to send message'')])
         | Some (db1, message) \<Rightarrow>
             (case chat_update db1 cid (date_now ev) of
                None \<Rightarrow> (db1, [To_socket (socket_id c) (Error ''Failed to send message'')])
              | Some db2 \<Rightarrow> (db2, [To_channel (chat_channel cid) (New_dm message)]))))"

definition dm_typing_start :: "conn \<Rightarrow> js_string \<Rightarrow> emit list" where
  "dm_typing_start c cid =
     [To_others (chat_channel cid) (socket_id c)
        (Dm_user_typing (user_id (user c)) (username (user c)) cid)]"

definition dm_typing_stop :: "conn \<Rightarrow> js_string \<Rightarrow> emit list" where
  "dm_typing_stop c cid =
     [To_others (chat_channel cid) (socket_id c)
        (Dm_user_stopped_typing (user_id (user c)) (username (user c)) cid)]"

section \<open>The gateway\<close>

text \<open>
  The live sockets by socket id, and the store. A client event of a live socket runs
  that socket's handler; a disconnect runs the handler and removes the socket.
\<close>

record gateway =
  conns :: "js_string \<rightharpoonup> conn"
  store :: database

datatype client_event =
    Join_room js_string
  | Leave_room js_string
  | Send_message js_string js_string
  | Typing_start js_string
  | Typing_stop js_string
  | Join_chat js_string
  | Leave_chat js_string
  | Send_dm js_string js_string
  | Dm_typing_start js_string
  | Dm_typing_stop js_string
  | Join_notifications
  | Disconnect

fun handle :: "database \<Rightarrow> env \<Rightarrow> conn \<Rightarrow> client_event \<Rightarrow> conn option \<times> database \<times> emit list" where
  "handle db ev c (Join_room rid) =
     (let (c', out) = join_room db ev c rid in (Some c', db, out))"
| "handle db ev c (Leave_room rid) =
     (let (c', out) = leave_room ev c rid in (Some c', db, out))"
| "handle db ev c (Send_message rid cont) =
     (let (db', out) = send_message db ev c rid cont in (Some c, db', out))"
| "handle db ev c (Typing_start rid) = (Some c, db, typing_start c rid)"
| "handle db ev c (Typing_stop rid) = (Some c, db, typing_stop c rid)"
| "handle db ev c (Join_chat cid) =
     (let (c', out) = join_chat db c cid in (Some c', db, out))"
| "handle db ev c (Leave_chat cid) = (Some (leave_chat c cid), db, [])"
| "handle db ev c (Send_dm cid cont) =
     (let (db', out) = send_dm db ev c cid cont in (Some c, db', out))"
| "handle db ev c (Dm_typing_start cid) = (Some c, db, dm_typing_start c cid)"
| "handle db ev c (Dm_typing_stop cid) = (Some c, db, dm_typing_stop c cid)"
| "handle db ev c Join_notifications =
     (let (c', out) = join_notifications c in (Some c', db, out))"
| "handle db ev c Disconnect = (None, db, disconnect ev c)"

definition step :: "env \<Rightarrow> gateway \<Rightarrow> js_string \<Rightarrow> client_event \<Rightarrow> gateway \<times> emit list" where
  "step ev g sid e =
     (case conns g sid of
        None \<Rightarrow> (g, [])
      | Some c \<Rightarrow>
          let (c', db', out) = handle (store g) ev c e
          in (\<lparr>conns = (conns g)(sid := c'), store = db'\<rparr>, out))"

definition connect :: "gateway \<Rightarrow> js_string \<Rightarrow> socket_user \<Rightarrow> gateway" where
  "connect g sid u = g\<lparr>conns := (conns g)(sid \<mapsto> on_connection sid u)\<rparr>"

text \<open>
  Invariant (a) of the data model: the active room of a connection, when set, is one
  of its transport rooms.
\<close>

definition conn_inv :: "conn \<Rightarrow> bool" where
  "conn_inv c = (case currentRoom c of None \<Rightarrow> True | Some r \<Rightarrow> r \<in> rooms c)"

definition gateway_inv :: "gateway \<Rightarrow> bool" where
  "gateway_inv g = (\<forall>sid c. conns g sid = Some c \<longrightarrow> conn_inv c)"

section \<open>History pagination\<close>




section \<open>Predicates of the statements\<close>

text \<open>
  The admission test the room handlers and the history route write inline: the room
  exists and the user is a member of its pod or the pod's owner.
\<close>

definition can_access_room :: "database \<Rightarrow> js_string \<Rightarrow> js_string \<Rightarrow> bool" where
  "can_access_room db uid rid =
     (case db_room db rid of
        None \<Rightarrow> False
      | Some room \<Rightarrow> (pod_id (pod room), uid) \<in> db_podMember db \<or> ownerId (pod room) = uid)"

definition can_access_chat :: "database \<Rightarrow> js_string \<Rightarrow> js_string \<Rightarrow> bool" where
  "can_access_chat db uid cid = ((cid, uid) \<in> db_chatParticipant db)"

text \<open>Content made of white space only, the empty string included.\<close>

definition white_space_only :: "js_string \<Rightarrow> bool" where
  "white_space_only s = list_all is_white_space s"

text \<open>
  \<open>t\<close> is \<open>s\<close> without its leading and trailing white space: \<open>t\<close> begins and ends
  with a character that is not white space, and \<open>s\<close> is \<open>t\<close> between the longest
  white-space prefix and the longest white-space suffix of \<open>s\<close>.
\<close>

definition trimmed_from :: "js_string \<Rightarrow> js_string \<Rightarrow> bool" where
  "trimmed_from s t \<longleftrightarrow>
     t \<noteq> [] \<and> \<not> is_white_space (hd t) \<and> \<not> is_white_space (last t) \<and>
     s = takeWhile is_white_space s @ t @ rev (takeWhile is_white_space (rev s))"

text \<open>Text that the store holds as it is given: no U+0000 and no unpaired surrogate.\<close>

definition stored_verbatim :: "js_string \<Rightarrow> bool" where
  "stored_verbatim s \<longleftrightarrow> store_text s = Some s"

text \<open>A handler's output reports a failure when one of its events is an \<open>error\<close>.\<close>

fun is_error :: "server_event \<Rightarrow> bool" where
  "is_error (Error msg) = True"
| "is_error e = False"

definition rejected :: "emit list \<Rightarrow> bool" where
  "rejected out = list_ex (\<lambda>e. is_error (payload e)) out"

text \<open>
  Referential integrity of the store: a participant row belongs to a chat that exists.
\<close>

definition participants_have_chat :: "database \<Rightarrow> bool" where
  "participants_have_chat db =
     (\<forall>p \<in> db_chatParticipant db. db_chat db (fst p) \<noteq> None)"

section \<open>Example data\<close>

definition alice :: socket_user where
  "alice = \<lparr>user_id = str ''u1'', username = str ''alice'', role = str ''USER'',
            fullName = None, avatar = None\<rparr>"

definition bob :: socket_user where
  "bob = \<lparr>user_id = str ''u2'', username = str ''bob'', role = str ''USER'',
          fullName = None, avatar = None\<rparr>"

definition carol :: socket_user where
  "carol = \<lparr>user_id = str ''u3'', username = str ''carol'', role = str ''USER'',
            fullName = None, avatar = None\<rparr>"

text \<open>
  Pod \<open>p1\<close> is owned by bob and has alice as its member; rooms \<open>r1\<close> and \<open>r2\<close> belong
  to it. Chat \<open>c1\<close> is between alice and bob. Carol is in neither.
\<close>

definition db0 :: database where
  "db0 = \<lparr>db_room = [str ''r1'' \<mapsto> \<lparr>pod = \<lparr>pod_id = str ''p1'', ownerId = str ''u2''\<rparr>\<rparr>,
                     str ''r2'' \<mapsto> \<lparr>pod = \<lparr>pod_id = str ''p1'', ownerId = str ''u2''\<rparr>\<rparr>],
          db_podMember = {(str ''p1'', str ''u1'')},
          db_chat = [str ''c1'' \<mapsto> 0],
          db_chatParticipant = {(str ''c1'', str ''u1''), (str ''c1'', str ''u2'')},
          db_message = []\<rparr>"

definition conn_alice :: conn where
  "conn_alice = on_connection (str ''s1'') alice"

definition conn_bob :: conn where
  "conn_bob = (on_connection (str ''s2'') bob)
                \<lparr>rooms := {str ''s2'', user_channel (str ''u2''), str ''r1''},
                 currentRoom := Some (str ''r1'')\<rparr>"

definition conn_carol :: conn where
  "conn_carol = on_connection (str ''s3'') carol"

definition env0 :: env where
  "env0 = \<lparr>new_id = str ''m1'', db_now = 100, date_now = 101\<rparr>"

definition env1 :: env where
  "env1 = \<lparr>new_id = str ''m2'', db_now = 200, date_now = 201\<rparr>"

text \<open>
  Content with U+0000 between two letters, and content that ends in a high surrogate
  with no low surrogate after it.
\<close>

definition nul_content :: js_string where
  "nul_content = [0x61, 0x0, 0x62]"

definition lone_surrogate_content :: js_string where
  "lone_surrogate_content = [0x61, 0xD800]"

text \<open>Alice's connection after she joined room \<open>r1\<close>.\<close>

definition conn_alice_r1 :: conn where
  "conn_alice_r1 = fst (join_room db0 env0 conn_alice (str ''r1''))"

definition g0 :: gateway where
  "g0 = \<lparr>conns = [str ''s1'' \<mapsto> conn_alice, str ''s2'' \<mapsto> conn_bob], store = db0\<rparr>"



section \<open>Auxiliary facts\<close>

lemmas example_defs = str_def alice_def bob_def carol_def db0_def env0_def env1_def
  conn_alice_def conn_bob_def conn_carol_def on_connection_def user_channel_def
  chat_channel_def

lemma conn_alice_r1_eq:
  "conn_alice_r1 = conn_alice\<lparr>rooms := insert (str ''r1'') (rooms conn_alice),
                                currentRoom := Some (str ''r1'')\<rparr>"
  by (simp add: conn_alice_r1_def join_room_def example_defs)

subsection \<open>Blank content\<close>

lemma trim_Nil_iff: "trim s = [] \<longleftrightarrow> white_space_only s"
proof -
  let ?d = "dropWhile is_white_space s"
  have "dropWhile is_white_space (rev ?d) = [] \<longleftrightarrow> ?d = []"
  proof (cases "?d = []")
    case True
    show ?thesis unfolding True by simp
  next
    case False
    then have "\<not> is_white_space (hd ?d)" by (rule hd_dropWhile)
    moreover have "hd ?d \<in> set ?d" using False by (rule hd_in_set)
    ultimately have "dropWhile is_white_space (rev ?d) \<noteq> []"
      unfolding dropWhile_eq_Nil_conv set_rev by blast
    with False show ?thesis by blast
  qed
  then show ?thesis
    by (simp add: trim_def white_space_only_def list_all_iff)
qed

lemma blank_iff: "(cont = [] \<or> trim cont = []) \<longleftrightarrow> white_space_only cont"
  using trim_Nil_iff[of cont] by (auto simp: white_space_only_def)

lemma blank_examples:
  "white_space_only (str ''   '')" "\<not> white_space_only (str ''hello'')"
  "trim (str ''hello'') = str ''hello''"
  by (simp_all add: white_space_only_def trim_def str_def is_white_space_def)

subsection \<open>Trimming and the store's text\<close>

lemma white_space_not_surrogate:
  "is_white_space c \<Longrightarrow> \<not> is_high_surrogate c \<and> \<not> is_low_surrogate c"
  unfolding is_white_space_def is_high_surrogate_def is_low_surrogate_def
  by (auto simp: word_le_nat_alt)

lemma to_well_formed_Cons_plain:
  "\<not> is_high_surrogate c \<Longrightarrow> \<not> is_low_surrogate c \<Longrightarrow>
   to_well_formed (c # s) = c # to_well_formed s"
  by (cases s) simp_all

lemma to_well_formed_prefix:
  "list_all is_white_space pre \<Longrightarrow> to_well_formed (pre @ s) = pre @ to_well_formed s"
  by (induction pre) (simp_all add: to_well_formed_Cons_plain white_space_not_surrogate)

lemma to_well_formed_white_space:
  "list_all is_white_space post \<Longrightarrow> to_well_formed post = post"
  using to_well_formed_prefix[of post "[]"] by simp

lemma to_well_formed_suffix:
  "list_all is_white_space post \<Longrightarrow> to_well_formed (s @ post) = to_well_formed s @ post"
proof (induction s rule: to_well_formed.induct)
  case 1
  then show ?case by (simp add: to_well_formed_white_space)
next
  case (2 c)
  then show ?case
    by (cases post) (auto simp: to_well_formed_white_space white_space_not_surrogate
        to_well_formed_Cons_plain)
next
  case (3 c d s)
  then show ?case by simp
qed

lemma trim_decomposition:
  assumes "\<not> white_space_only s"
  shows "trimmed_from s (trim s)"
proof -
  let ?P = "is_white_space"
  let ?d = "dropWhile ?P s"
  have dne: "?d \<noteq> []"
    using assms by (simp add: white_space_only_def list_all_iff)
  then have hd_d: "\<not> ?P (hd ?d)" by (rule hd_dropWhile)
  have hd_in: "hd ?d \<in> set (rev ?d)" using dne by simp
  have rne: "dropWhile ?P (rev ?d) \<noteq> []"
    using hd_d hd_in unfolding dropWhile_eq_Nil_conv by blast
  then have tne: "trim s \<noteq> []" by (simp add: trim_def)
  have d_eq: "?d = trim s @ rev (takeWhile ?P (rev ?d))"
  proof -
    have "rev (dropWhile ?P (rev ?d)) @ rev (takeWhile ?P (rev ?d)) =
          rev (takeWhile ?P (rev ?d) @ dropWhile ?P (rev ?d))"
      by (simp only: rev_append)
    also have "\<dots> = rev (rev ?d)" by (simp only: takeWhile_dropWhile_id)
    also have "\<dots> = ?d" by simp
    finally show ?thesis by (simp only: trim_def)
  qed
  have "rev ?d @ rev (takeWhile ?P s) = rev (takeWhile ?P s @ ?d)"
    by (simp only: rev_append)
  also have "\<dots> = rev s" by (simp only: takeWhile_dropWhile_id)
  finally have "rev s = rev ?d @ rev (takeWhile ?P s)" by (rule sym)
  then have tw: "takeWhile ?P (rev s) = takeWhile ?P (rev ?d)"
    using takeWhile_append1[of "hd ?d" "rev ?d" ?P "rev (takeWhile ?P s)"] hd_in hd_d
    by simp
  have s_eq: "s = takeWhile ?P s @ trim s @ rev (takeWhile ?P (rev s))"
  proof -
    have "s = takeWhile ?P s @ ?d" by simp
    also have "\<dots> = takeWhile ?P s @ trim s @ rev (takeWhile ?P (rev ?d))"
      using d_eq by simp
    finally show ?thesis unfolding tw .
  qed
  have "hd (trim s) = hd ?d" using d_eq tne by (metis hd_append2)
  then have h: "\<not> ?P (hd (trim s))" using hd_d by simp
  have "last (trim s) = hd (dropWhile ?P (rev ?d))"
    using rne by (simp add: trim_def last_rev)
  then have l: "\<not> ?P (last (trim s))" using hd_dropWhile[OF rne] by simp
  show ?thesis unfolding trimmed_from_def using tne h l s_eq by blast
qed

lemma stored_verbatim_trim:
  assumes "stored_verbatim s" and "\<not> white_space_only s"
  shows "stored_verbatim (trim s)"
proof -
  let ?pre = "takeWhile is_white_space s"
  let ?post = "rev (takeWhile is_white_space (rev s))"
  have dec: "s = ?pre @ trim s @ ?post"
    using trim_decomposition[OF assms(2)] by (simp add: trimmed_from_def)
  have pre: "list_all is_white_space ?pre"
    by (auto simp: list_all_iff dest: set_takeWhileD)
  have post: "list_all is_white_space ?post"
    by (auto simp: list_all_iff dest: set_takeWhileD)
  have nul: "0 \<notin> set s" and wf: "to_well_formed s = s"
    using assms(1) by (auto simp: stored_verbatim_def store_text_def split: if_splits)
  have "to_well_formed (?pre @ trim s @ ?post) = ?pre @ to_well_formed (trim s) @ ?post"
    using pre post to_well_formed_suffix[of ?post "trim s"]
    by (simp add: to_well_formed_prefix)
  with wf dec have "?pre @ to_well_formed (trim s) @ ?post = ?pre @ trim s @ ?post"
    by simp
  then have "to_well_formed (trim s) = trim s" by simp
  moreover have "0 \<notin> set (trim s)"
  proof -
    have "set (trim s) \<subseteq> set s" by (subst (2) dec) auto
    then show ?thesis using nul by blast
  qed
  ultimately show ?thesis by (simp add: stored_verbatim_def store_text_def)
qed

lemma kept_by_dropWhile:
  "x \<in> set s \<Longrightarrow> \<not> P x \<Longrightarrow> x \<in> set (dropWhile P s)"
  by (induction s) auto

lemma nul_in_trim:
  assumes "0 \<in> set s"
  shows "0 \<in> set (trim s)"
proof -
  have n: "\<not> is_white_space 0" by (simp add: is_white_space_def)
  have "0 \<in> set (rev (dropWhile is_white_space s))"
    using kept_by_dropWhile[of 0 s is_white_space] assms n by simp
  then have "0 \<in> set (dropWhile is_white_space (rev (dropWhile is_white_space s)))"
    using kept_by_dropWhile[of 0 "rev (dropWhile is_white_space s)" is_white_space] n
    by blast
  then show ?thesis by (simp add: trim_def)
qed

lemma trimmed_from_unique: "trimmed_from s t \<Longrightarrow> trimmed_from s t' \<Longrightarrow> t = t'"
  by (metis trimmed_from_def append_same_eq same_append_eq)

lemma content_examples:
  "\<not> white_space_only (str ''  hello  '')"
  "stored_verbatim (str ''  hello  '')"
  "\<not> white_space_only nul_content" "0 \<in> set nul_content"
  "0 \<notin> set (str ''hello'')"
  by (simp_all add: white_space_only_def stored_verbatim_def store_text_def str_def
      is_white_space_def is_high_surrogate_def is_low_surrogate_def nul_content_def)

subsection \<open>Access in the example store\<close>

lemma access_examples:
  "can_access_room db0 (user_id (user conn_alice)) (str ''r1'')"
  "can_access_room db0 (user_id (user conn_bob)) (str ''r1'')"
  "\<not> can_access_room db0 (user_id (user conn_carol)) (str ''r1'')"
  "can_access_chat db0 (user_id (user conn_alice)) (str ''c1'')"
  "\<not> can_access_chat db0 (user_id (user conn_carol)) (str ''c1'')"
  "\<not> can_access_chat db0 (user_id (user conn_carol)) (str ''c9'')"
  "db_room db0 (str ''r9'') = None"
  "db_chat db0 (str ''c9'') = None"
  "participants_have_chat db0"
  by (simp_all add: can_access_room_def can_access_chat_def participants_have_chat_def
      example_defs)

subsection \<open>Sorting rows with distinct keys\<close>







subsection \<open>The invariant, handler by handler\<close>

lemma conn_inv_join_room: "conn_inv c \<Longrightarrow> conn_inv (fst (join_room db ev c r))"
  by (auto simp: conn_inv_def join_room_def Let_def split: option.splits)

lemma conn_inv_leave_room: "conn_inv c \<Longrightarrow> conn_inv (fst (leave_room ev c r))"
  by (auto simp: conn_inv_def leave_room_def split: option.splits)

lemma conn_inv_join_chat: "conn_inv c \<Longrightarrow> conn_inv (fst (join_chat db c cid))"
  by (auto simp: conn_inv_def join_chat_def split: option.splits)

lemma conn_inv_join_notifications: "conn_inv c \<Longrightarrow> conn_inv (fst (join_notifications c))"
  by (auto simp: conn_inv_def join_notifications_def split: option.splits)

lemma conn_inv_on_connection: "conn_inv (on_connection sid u)"
  by (simp add: conn_inv_def on_connection_def)

lemma gateway_inv_connect: "gateway_inv g \<Longrightarrow> gateway_inv (connect g sid u)"
  by (simp add: gateway_inv_def connect_def conn_inv_on_connection)

text \<open>
  A leave-chat takes the socket out of the chat's channel whatever its active room is;
  it keeps the invariant when the active room is not named like that channel.
\<close>

lemma conn_inv_leave_chat:
  "conn_inv c \<Longrightarrow> currentRoom c \<noteq> Some (chat_channel cid) \<Longrightarrow> conn_inv (leave_chat c cid)"
  by (auto simp: conn_inv_def leave_chat_def split: option.splits)

lemma conn_inv_handle:
  assumes "conn_inv c" and "\<forall>cid. e \<noteq> Leave_chat cid"
      and "fst (handle db ev c e) = Some c'"
  shows "conn_inv c'"
proof (cases e)
  case (Join_room r)
  with assms(3) have "c' = fst (join_room db ev c r)" by (auto split: prod.splits)
  then show ?thesis using assms(1) by (simp add: conn_inv_join_room)
next
  case (Leave_room r)
  with assms(3) have "c' = fst (leave_room ev c r)" by (auto split: prod.splits)
  then show ?thesis using assms(1) by (simp add: conn_inv_leave_room)
next
  case (Join_chat cid)
  with assms(3) have "c' = fst (join_chat db c cid)" by (auto split: prod.splits)
  then show ?thesis using assms(1) by (simp add: conn_inv_join_chat)
next
  case Join_notifications
  with assms(3) have "c' = fst (join_notifications c)" by (auto split: prod.splits)
  then show ?thesis using assms(1) by (simp add: conn_inv_join_notifications)
next
  case (Leave_chat cid)
  with assms(2) show ?thesis by simp
qed (use assms in \<open>auto split: prod.splits\<close>)

lemma gateway_inv_g0: "gateway_inv g0"
  by (auto simp: gateway_inv_def g0_def conn_inv_def example_defs split: if_splits)

section \<open>Properties\<close>

text \<open>
  C1. For a room R that exists and a user U on an authenticated connection,
  join-room(R) succeeds (the room-joined acknowledgment is sent to the connection,
  which is put into R's transport room with R as its active room) exactly when U is
  the owner of R's pod or a member of it. Otherwise the not-a-member error goes to
  the requesting socket only and the connection, with its transport rooms and its
  active room, is returned as it was.
\<close>

theorem join_room_succeeds_iff_authorized:
  assumes "db_room db r = Some room"
  shows "(To_socket (socket_id c) (Room_joined r) \<in> set (snd (join_room db ev c r))
            \<longleftrightarrow> ownerId (pod room) = user_id (user c)
                \<or> (pod_id (pod room), user_id (user c)) \<in> db_podMember db)
       \<and> (ownerId (pod room) = user_id (user c)
            \<or> (pod_id (pod room), user_id (user c)) \<in> db_podMember db
            \<longrightarrow> r \<in> rooms (fst (join_room db ev c r))
                \<and> currentRoom (fst (join_room db ev c r)) = Some r)
       \<and> (\<not> (ownerId (pod room) = user_id (user c)
                \<or> (pod_id (pod room), user_id (user c)) \<in> db_podMember db)
            \<longrightarrow> join_room db ev c r =
                  (c, [To_socket (socket_id c)
                         (Error ''You must be a member of this pod to join this room'')]))"
  using assms by (auto simp: join_room_def Let_def)

theorem join_room_succeeds_iff_authorized_witness:
  "To_socket (str ''s1'') (Room_joined (str ''r1''))
      \<in> set (snd (join_room db0 env0 conn_alice (str ''r1'')))
   \<and> str ''r1'' \<in> rooms (fst (join_room db0 env0 conn_alice (str ''r1'')))
   \<and> currentRoom (fst (join_room db0 env0 conn_alice (str ''r1''))) = Some (str ''r1'')
   \<and> To_socket (str ''s3'') (Room_joined (str ''r1''))
      \<notin> set (snd (join_room db0 env0 conn_carol (str ''r1'')))
   \<and> join_room db0 env0 conn_carol (str ''r1'') =
       (conn_carol, [To_socket (str ''s3'')
                       (Error ''You must be a member of this pod to join this room'')])"
proof -
  have room: "db_room db0 (str ''r1'') = Some \<lparr>pod = \<lparr>pod_id = str ''p1'', ownerId = str ''u2''\<rparr>\<rparr>"
    by (simp add: example_defs)
  show ?thesis
    using join_room_succeeds_iff_authorized[OF room, of conn_alice env0]
          join_room_succeeds_iff_authorized[OF room, of conn_carol env0]
    by (simp add: example_defs)
qed

text \<open>
  C2. A send-message to a room that does not exist or that the sender may not access,
  and a send-dm to a chat that does not exist or of which the sender is not a
  participant, answer with one error event to the sender's socket only; the store is
  returned unchanged (no message row, nothing partial) and nothing is broadcast.
  For chats the store is one in which every participant row belongs to a chat.
\<close>

theorem send_rejected_is_atomic:
  "(\<not> can_access_room db (user_id (user c)) r \<longrightarrow>
      send_message db ev c r cont =
        (db, [To_socket (socket_id c)
                (Error (if white_space_only cont then ''Message content is required''
                        else if db_room db r = None then ''Room not found''
                        else ''You must be a member of this pod to send messages''))]))
   \<and> (participants_have_chat db \<longrightarrow>
        db_chat db cid = None \<or> \<not> can_access_chat db (user_id (user c)) cid \<longrightarrow>
      send_dm db ev c cid cont =
        (db, [To_socket (socket_id c)
                (Error (if white_space_only cont then ''Message content is required''
                        else ''You are not a participant of this chat''))]))"
  by (auto simp: send_message_def send_dm_def can_access_room_def can_access_chat_def
      participants_have_chat_def blank_iff Let_def split: option.splits)

theorem send_rejected_is_atomic_witness:
  "send_message db0 env0 conn_carol (str ''r1'') (str ''hello'') =
     (db0, [To_socket (str ''s3'')
              (Error ''You must be a member of this pod to send messages'')])
   \<and> send_message db0 env0 conn_alice (str ''r9'') (str ''hello'') =
     (db0, [To_socket (str ''s1'') (Error ''Room not found'')])
   \<and> send_dm db0 env0 conn_carol (str ''c1'') (str ''hello'') =
     (db0, [To_socket (str ''s3'') (Error ''You are not a participant of this chat'')])
   \<and> send_dm db0 env0 conn_carol (str ''c9'') (str ''hello'') =
     (db0, [To_socket (str ''s3'') (Error ''You are not a participant of this chat'')])"
proof -
  have no_r9: "\<not> can_access_room db0 (user_id (user conn_alice)) (str ''r9'')"
    by (simp add: can_access_room_def access_examples(7))
  have sock: "socket_id conn_carol = str ''s3''" "socket_id conn_alice = str ''s1''"
            "db_room db0 (str ''r1'') \<noteq> None"
    by (simp_all add: example_defs)
  show ?thesis
    using send_rejected_is_atomic[of db0 conn_carol "str ''r1''" env0 "str ''hello''" "str ''c1''"]
          send_rejected_is_atomic[of db0 conn_alice "str ''r9''" env0 "str ''hello''" "str ''c9''"]
          send_rejected_is_atomic[of db0 conn_carol "str ''r1''" env0 "str ''hello''" "str ''c9''"]
          access_examples no_r9 blank_examples
    by (simp add: sock)
qed






text \<open>
  C5, as stated, fails in its last part: the echo reaches the sender's connection
  only as a member of the channel. Alice may send to room \<open>r1\<close> and to chat \<open>c1\<close>,
  but her connection has joined neither channel; both sends succeed, and none of the
  emitted events reaches her connection.
\<close>

theorem successful_send_without_echo:
  "\<not> rejected (snd (send_message db0 env0 conn_alice (str ''r1'') (str ''hello'')))
   \<and> snd (send_message db0 env0 conn_alice (str ''r1'') (str ''hello'')) =
       [To_channel (str ''r1'')
          (New_message \<lparr>message_id = str ''m1'', content = str ''hello'',
                         roomId = Some (str ''r1''), chatId = None,
                         senderId = str ''u1'', createdAt = 100\<rparr>)]
   \<and> \<not> list_ex (receives conn_alice)
          (snd (send_message db0 env0 conn_alice (str ''r1'') (str ''hello'')))
   \<and> \<not> rejected (snd (send_dm db0 env0 conn_alice (str ''c1'') (str ''hello'')))
   \<and> snd (send_dm db0 env0 conn_alice (str ''c1'') (str ''hello'')) =
       [To_channel (chat_channel (str ''c1''))
          (New_dm \<lparr>message_id = str ''m1'', content = str ''hello'',
                    roomId = None, chatId = Some (str ''c1''),
                    senderId = str ''u1'', createdAt = 100\<rparr>)]
   \<and> \<not> list_ex (receives conn_alice)
          (snd (send_dm db0 env0 conn_alice (str ''c1'') (str ''hello'')))"
  by (simp add: rejected_def send_message_def send_dm_def message_create_def chat_update_def
      store_text_def Let_def example_defs trim_def is_white_space_def is_high_surrogate_def
      is_low_surrogate_def)

text \<open>
  C5, amended. A send-message or send-dm that is not rejected emits exactly one
  event, the persisted message, to the room's (the chat's) transport channel: a
  connection receives it exactly when it is in that channel. The sender is not left
  out of the broadcast, so its own connection receives the echo exactly when it is
  itself in the channel, and not otherwise.
\<close>

theorem send_reaches_exactly_the_channel:
  "(\<not> rejected (snd (send_message db ev c r cont)) \<longrightarrow>
      (\<exists>m. snd (send_message db ev c r cont) = [To_channel r (New_message m)] \<and>
           db_message (fst (send_message db ev c r cont)) = db_message db @ [m] \<and>
           (\<forall>c'. list_ex (receives c') (snd (send_message db ev c r cont))
                   \<longleftrightarrow> r \<in> rooms c') \<and>
           (list_ex (receives c) (snd (send_message db ev c r cont)) \<longleftrightarrow> r \<in> rooms c)))
   \<and> (\<not> rejected (snd (send_dm db ev c cid cont)) \<longrightarrow>
      (\<exists>m. snd (send_dm db ev c cid cont) = [To_channel (chat_channel cid) (New_dm m)] \<and>
           db_message (fst (send_dm db ev c cid cont)) = db_message db @ [m] \<and>
           (\<forall>c'. list_ex (receives c') (snd (send_dm db ev c cid cont))
                   \<longleftrightarrow> chat_channel cid \<in> rooms c') \<and>
           (list_ex (receives c) (snd (send_dm db ev c cid cont))
                   \<longleftrightarrow> chat_channel cid \<in> rooms c)))"
  by (auto simp: send_message_def send_dm_def rejected_def Let_def message_create_def
      chat_update_def split: option.splits)


theorem send_reaches_exactly_the_channel_witness:
  "list_ex (receives conn_alice_r1)
     (snd (send_message db0 env0 conn_alice_r1 (str ''r1'') (str ''hello'')))
   \<and> list_ex (receives conn_bob)
     (snd (send_message db0 env0 conn_alice_r1 (str ''r1'') (str ''hello'')))
   \<and> \<not> list_ex (receives conn_carol)
     (snd (send_message db0 env0 conn_alice_r1 (str ''r1'') (str ''hello'')))
   \<and> list_ex (receives (fst (join_chat db0 conn_alice (str ''c1''))))
     (snd (send_dm db0 env0 (fst (join_chat db0 conn_alice (str ''c1'')))
            (str ''c1'') (str ''hello'')))
   \<and> \<not> list_ex (receives conn_bob)
     (snd (send_dm db0 env0 (fst (join_chat db0 conn_alice (str ''c1'')))
            (str ''c1'') (str ''hello'')))"
proof -
  have ok1: "\<not> rejected (snd (send_message db0 env0 conn_alice_r1 (str ''r1'') (str ''hello'')))"
    by (simp add: rejected_def send_message_def message_create_def store_text_def Let_def
        conn_alice_r1_eq example_defs trim_def is_white_space_def is_high_surrogate_def
        is_low_surrogate_def)
  have ok2: "\<not> rejected (snd (send_dm db0 env0 (fst (join_chat db0 conn_alice (str ''c1'')))
                          (str ''c1'') (str ''hello'')))"
    by (simp add: rejected_def send_dm_def join_chat_def chat_update_def message_create_def
        store_text_def Let_def example_defs trim_def is_white_space_def
        is_high_surrogate_def is_low_surrogate_def)
  have in1: "str ''r1'' \<in> rooms conn_alice_r1" "str ''r1'' \<in> rooms conn_bob"
            "str ''r1'' \<notin> rooms conn_carol"
    by (simp_all add: conn_alice_r1_eq example_defs)
  have in2: "chat_channel (str ''c1'') \<in> rooms (fst (join_chat db0 conn_alice (str ''c1'')))"
            "chat_channel (str ''c1'') \<notin> rooms conn_bob"
    by (simp_all add: join_chat_def example_defs)
  from send_reaches_exactly_the_channel
         [of db0 env0 conn_alice_r1 "str ''r1''" "str ''hello''" "str ''c1''"]
       send_reaches_exactly_the_channel
         [of db0 env0 "fst (join_chat db0 conn_alice (str ''c1''))" "str ''r1''"
             "str ''hello''" "str ''c1''"]
  show ?thesis using ok1 ok2 in1 in2 by blast
qed

text \<open>
  C6, as stated, fails in its last part: the handler has no test for a socket that
  is already in the room. When alice joins \<open>r1\<close> a second time the handler emits
  user-joined to the others of the room once more, and bob, who is in \<open>r1\<close>,
  receives it.
\<close>

theorem second_join_broadcasts_user_joined_again:
  "snd (join_room db0 env1 (fst (join_room db0 env0 conn_alice (str ''r1''))) (str ''r1''))
     = [To_others (str ''r1'') (str ''s1'')
          (User_joined (str ''u1'') (str ''alice'') None None 201),
        To_socket (str ''s1'') (Room_joined (str ''r1''))]
   \<and> receives conn_bob
        (To_others (str ''r1'') (str ''s1'')
          (User_joined (str ''u1'') (str ''alice'') None None 201))"
  by (simp add: join_room_def example_defs)

text \<open>
  C6, amended. Two successful join-room(R) calls in sequence from one connection send
  two room-joined acknowledgments to the joiner and leave one membership: after the
  first call the connection is in R's transport room and the second call changes
  nothing of the connection. Each of the two calls emits user-joined to the others of
  the room, so every other occupant receives it twice.
\<close>

theorem join_room_twice:
  assumes "can_access_room db1 (user_id (user c)) r"
      and "can_access_room db2 (user_id (user c)) r"
      and "join_room db1 ev1 c r = (c1, out1)"
      and "join_room db2 ev2 c1 r = (c2, out2)"
  shows "To_socket (socket_id c) (Room_joined r) \<in> set out1
       \<and> To_socket (socket_id c) (Room_joined r) \<in> set out2
       \<and> rooms c1 = insert r (rooms c) \<and> rooms c2 = rooms c1 \<and> c2 = c1
       \<and> out1 = [To_others r (socket_id c)
                   (User_joined (user_id (user c)) (username (user c))
                      (fullName (user c)) (avatar (user c)) (date_now ev1)),
                 To_socket (socket_id c) (Room_joined r)]
       \<and> out2 = [To_others r (socket_id c)
                   (User_joined (user_id (user c)) (username (user c))
                      (fullName (user c)) (avatar (user c)) (date_now ev2)),
                 To_socket (socket_id c) (Room_joined r)]
       \<and> (\<forall>c'. r \<in> rooms c' \<and> socket_id c' \<noteq> socket_id c \<longrightarrow>
               receives c' (hd out1) \<and> receives c' (hd out2))"
  using assms
  by (auto simp: join_room_def can_access_room_def Let_def split: option.splits)

theorem join_room_twice_witness:
  "rooms (fst (join_room db0 env1 conn_alice_r1 (str ''r1''))) =
     insert (str ''r1'') (rooms conn_alice)
   \<and> fst (join_room db0 env1 conn_alice_r1 (str ''r1'')) = conn_alice_r1
   \<and> To_socket (str ''s1'') (Room_joined (str ''r1''))
       \<in> set (snd (join_room db0 env0 conn_alice (str ''r1'')))
   \<and> To_socket (str ''s1'') (Room_joined (str ''r1''))
       \<in> set (snd (join_room db0 env1 conn_alice_r1 (str ''r1'')))
   \<and> receives conn_bob (hd (snd (join_room db0 env0 conn_alice (str ''r1''))))
   \<and> receives conn_bob (hd (snd (join_room db0 env1 conn_alice_r1 (str ''r1''))))"
proof -
  have j1: "join_room db0 env0 conn_alice (str ''r1'') =
              (conn_alice_r1, snd (join_room db0 env0 conn_alice (str ''r1'')))"
    by (simp add: conn_alice_r1_def)
  have j2: "join_room db0 env1 conn_alice_r1 (str ''r1'') =
              (fst (join_room db0 env1 conn_alice_r1 (str ''r1'')),
               snd (join_room db0 env1 conn_alice_r1 (str ''r1'')))"
    by simp
  have bob: "str ''r1'' \<in> rooms conn_bob" "socket_id conn_bob \<noteq> socket_id conn_alice"
            "socket_id conn_alice = str ''s1''"
    by (simp_all add: example_defs)
  from join_room_twice[OF access_examples(1) access_examples(1) j1 j2] bob
  show ?thesis by simp
qed

text \<open>
  C7, as stated, fails in its second part. Content that is not blank is not always
  persisted as the trimmed input: the store refuses content with U+0000, so for the
  content a, U+0000, b from alice, who may send to \<open>r1\<close> and \<open>c1\<close>, the handlers
  answer "Failed to send message" and no row is written; and a surrogate without
  its partner is stored as U+FFFD, so the stored content is not the trimmed input.
\<close>

theorem nul_content_is_not_persisted:
  "nul_content \<noteq> [] \<and> \<not> white_space_only nul_content
   \<and> can_access_room db0 (user_id (user conn_alice)) (str ''r1'')
   \<and> send_message db0 env0 conn_alice (str ''r1'') nul_content =
       (db0, [To_socket (str ''s1'') (Error ''Failed to send message'')])
   \<and> can_access_chat db0 (user_id (user conn_alice)) (str ''c1'')
   \<and> send_dm db0 env0 conn_alice (str ''c1'') nul_content =
       (db0, [To_socket (str ''s1'') (Error ''Failed to send message'')])
   \<and> trim lone_surrogate_content = [0x61, 0xD800]
   \<and> db_message (fst (send_message db0 env0 conn_alice (str ''r1'') lone_surrogate_content)) =
       [\<lparr>message_id = str ''m1'', content = [0x61, 0xFFFD], roomId = Some (str ''r1''),
         chatId = None, senderId = str ''u1'', createdAt = 100\<rparr>]"
  by (simp add: send_message_def send_dm_def message_create_def store_text_def Let_def
      can_access_room_def can_access_chat_def white_space_only_def example_defs trim_def
      is_white_space_def is_high_surrogate_def is_low_surrogate_def nul_content_def
      lone_surrogate_content_def)

text \<open>
  C7, amended. A send-message or send-dm whose content is empty or white space only
  is answered with the content-required error to the sender's socket only, and the
  store is unchanged. With content that is not white space only and that the store
  holds as given (no U+0000, no unpaired surrogate), such as "hello", and a sender
  who may access the room (is a participant of the chat), exactly one message row is
  added, and its content is the input without its leading and trailing white space.
  Content with U+0000 from such a sender is answered with "Failed to send message"
  to the sender's socket only, and the store is unchanged.
\<close>

theorem content_validated_trimmed_stored:
  "(white_space_only cont \<longrightarrow>
      send_message db ev c r cont =
        (db, [To_socket (socket_id c) (Error ''Message content is required'')]) \<and>
      send_dm db ev c cid cont =
        (db, [To_socket (socket_id c) (Error ''Message content is required'')]))
   \<and> (\<not> white_space_only cont \<and> stored_verbatim cont
        \<and> can_access_room db (user_id (user c)) r \<longrightarrow>
        (\<exists>t. trimmed_from cont t \<and>
             db_message (fst (send_message db ev c r cont)) =
               db_message db @ [\<lparr>message_id = new_id ev, content = t, roomId = Some r,
                                  chatId = None, senderId = user_id (user c),
                                  createdAt = db_now ev\<rparr>]))
   \<and> (\<not> white_space_only cont \<and> stored_verbatim cont
        \<and> can_access_chat db (user_id (user c)) cid \<longrightarrow>
        (\<exists>t. trimmed_from cont t \<and>
             db_message (fst (send_dm db ev c cid cont)) =
               db_message db @ [\<lparr>message_id = new_id ev, content = t, roomId = None,
                                  chatId = Some cid, senderId = user_id (user c),
                                  createdAt = db_now ev\<rparr>]))
   \<and> (0 \<in> set cont \<and> can_access_room db (user_id (user c)) r \<longrightarrow>
        send_message db ev c r cont =
          (db, [To_socket (socket_id c) (Error ''Failed to send message'')]))
   \<and> (0 \<in> set cont \<and> can_access_chat db (user_id (user c)) cid \<longrightarrow>
        send_dm db ev c cid cont =
          (db, [To_socket (socket_id c) (Error ''Failed to send message'')]))"
proof -
  have blank: "send_message db ev c r cont =
        (db, [To_socket (socket_id c) (Error ''Message content is required'')]) \<and>
      send_dm db ev c cid cont =
        (db, [To_socket (socket_id c) (Error ''Message content is required'')])"
    if "white_space_only cont"
    using that blank_iff[of cont] by (simp add: send_message_def send_dm_def)
  have keep: "store_text (trim cont) = Some (trim cont)" "trimmed_from cont (trim cont)"
    if "\<not> white_space_only cont" "stored_verbatim cont"
    using that stored_verbatim_trim[of cont] trim_decomposition[of cont]
    by (simp_all add: stored_verbatim_def)
  have room: "\<exists>t. trimmed_from cont t \<and>
             db_message (fst (send_message db ev c r cont)) =
               db_message db @ [\<lparr>message_id = new_id ev, content = t, roomId = Some r,
                                  chatId = None, senderId = user_id (user c),
                                  createdAt = db_now ev\<rparr>]"
    if "\<not> white_space_only cont" "stored_verbatim cont"
       "can_access_room db (user_id (user c)) r"
    using that keep[OF that(1,2)] blank_iff[of cont]
    by (intro exI[of _ "trim cont"])
       (auto simp: send_message_def can_access_room_def message_create_def Let_def
         split: option.splits)
  have chat: "\<exists>t. trimmed_from cont t \<and>
             db_message (fst (send_dm db ev c cid cont)) =
               db_message db @ [\<lparr>message_id = new_id ev, content = t, roomId = None,
                                  chatId = Some cid, senderId = user_id (user c),
                                  createdAt = db_now ev\<rparr>]"
    if "\<not> white_space_only cont" "stored_verbatim cont"
       "can_access_chat db (user_id (user c)) cid"
    using that keep[OF that(1,2)] blank_iff[of cont]
    by (intro exI[of _ "trim cont"])
       (auto simp: send_dm_def can_access_chat_def message_create_def chat_update_def Let_def
         split: option.splits)
  have not_blank: "\<not> (cont = [] \<or> trim cont = [])" "0 \<in> set (trim cont)" if "0 \<in> set cont"
    using that nul_in_trim[OF that] by auto
  have nul_room: "send_message db ev c r cont =
          (db, [To_socket (socket_id c) (Error ''Failed to send message'')])"
    if "0 \<in> set cont" "can_access_room db (user_id (user c)) r"
    using that(2) not_blank[OF that(1)]
    by (auto simp: send_message_def can_access_room_def message_create_def store_text_def
        Let_def split: option.splits)
  have nul_chat: "send_dm db ev c cid cont =
          (db, [To_socket (socket_id c) (Error ''Failed to send message'')])"
    if "0 \<in> set cont" "can_access_chat db (user_id (user c)) cid"
    using that(2) not_blank[OF that(1)]
    by (auto simp: send_dm_def can_access_chat_def message_create_def store_text_def
        Let_def split: option.splits)
  from blank room chat nul_room nul_chat show ?thesis by blast
qed

theorem content_validated_trimmed_stored_witness:
  "send_message db0 env0 conn_alice (str ''r1'') (str ''   '') =
      (db0, [To_socket (str ''s1'') (Error ''Message content is required'')])
   \<and> send_dm db0 env0 conn_alice (str ''c1'') (str ''   '') =
      (db0, [To_socket (str ''s1'') (Error ''Message content is required'')])
   \<and> db_message (fst (send_message db0 env0 conn_alice (str ''r1'') (str ''  hello  ''))) =
       [\<lparr>message_id = str ''m1'', content = str ''hello'', roomId = Some (str ''r1''),
         chatId = None, senderId = str ''u1'', createdAt = 100\<rparr>]
   \<and> db_message (fst (send_dm db0 env0 conn_alice (str ''c1'') (str ''  hello  ''))) =
       [\<lparr>message_id = str ''m1'', content = str ''hello'', roomId = None,
         chatId = Some (str ''c1''), senderId = str ''u1'', createdAt = 100\<rparr>]
   \<and> send_message db0 env0 conn_alice (str ''r1'') nul_content =
       (db0, [To_socket (str ''s1'') (Error ''Failed to send message'')])"
proof -
  have misc: "db_message db0 = []" "new_id env0 = str ''m1''" "db_now env0 = 100"
     "user_id (user conn_alice) = str ''u1''" "socket_id conn_alice = str ''s1''"
    by (simp_all add: example_defs)
  have hello: "trimmed_from (str ''  hello  '') t \<longleftrightarrow> t = str ''hello''" for t
    by (auto simp: trimmed_from_def str_def is_white_space_def)
  show ?thesis
    using content_validated_trimmed_stored
            [of "str ''   ''" db0 env0 conn_alice "str ''r1''" "str ''c1''"]
          content_validated_trimmed_stored
            [of "str ''  hello  ''" db0 env0 conn_alice "str ''r1''" "str ''c1''"]
          content_validated_trimmed_stored
            [of nul_content db0 env0 conn_alice "str ''r1''" "str ''c1''"]
          blank_examples(1) content_examples access_examples(1,4)
    by (simp add: misc hello)
qed

text \<open>
  C8. A leave-room for a room R while the connection's active room is S, with R
  different from S, does nothing: nothing is emitted (no user-left, no room-left),
  the active room is still S and the transport rooms of the connection are the same.
\<close>

theorem leave_room_other_room_noop:
  assumes "currentRoom c = Some s" and "r \<noteq> s"
  shows "leave_room ev c r = (c, []) \<and>
         currentRoom (fst (leave_room ev c r)) = Some s \<and>
         rooms (fst (leave_room ev c r)) = rooms c"
  using assms by (simp add: leave_room_def)

theorem leave_room_other_room_noop_witness:
  "leave_room env0 conn_bob (str ''r2'') = (conn_bob, [])
   \<and> currentRoom (fst (leave_room env0 conn_bob (str ''r2''))) = Some (str ''r1'')
   \<and> rooms (fst (leave_room env0 conn_bob (str ''r2''))) = rooms conn_bob"
proof -
  have cur: "currentRoom conn_bob = Some (str ''r1'')" by (simp add: example_defs)
  have ne: "str ''r2'' \<noteq> str ''r1''" by (simp add: str_def)
  from leave_room_other_room_noop[OF cur ne, of env0] show ?thesis .
qed

text \<open>
  C9. If every live connection's active room, when set, is one of the connection's
  transport rooms, then this is so again after any client event of join-room,
  leave-room, send-message, send-dm, the typing events, join-chat,
  join-notifications and disconnect, from any socket.
\<close>

theorem active_room_is_joined_invariant:
  assumes "gateway_inv g" and "\<forall>cid. e \<noteq> Leave_chat cid"
  shows "gateway_inv (fst (step ev g sid e))"
proof (cases "conns g sid")
  case None
  then show ?thesis using assms(1) by (simp add: step_def)
next
  case (Some c)
  then have ic: "conn_inv c" using assms(1) by (simp add: gateway_inv_def)
  obtain c' db' out where h: "handle (store g) ev c e = (c', db', out)"
    by (cases "handle (store g) ev c e") auto
  have "conn_inv x" if "c' = Some x" for x
    using conn_inv_handle[OF ic assms(2), of "store g" ev x] h that by simp
  then show ?thesis
    using assms(1) Some h by (auto simp: step_def gateway_inv_def)
qed

theorem active_room_is_joined_invariant_witness:
  "gateway_inv g0
   \<and> gateway_inv (fst (step env0 g0 (str ''s1'') (Join_room (str ''r1''))))
   \<and> gateway_inv (fst (step env0 g0 (str ''s2'') (Leave_room (str ''r1''))))
   \<and> gateway_inv (fst (step env0 g0 (str ''s2'') (Send_message (str ''r1'') (str ''hello''))))
   \<and> gateway_inv (fst (step env0 g0 (str ''s2'') (Typing_start (str ''r1''))))
   \<and> gateway_inv (fst (step env0 g0 (str ''s2'') Disconnect))"
  using gateway_inv_g0
    active_room_is_joined_invariant[of g0 "Join_room (str ''r1'')" env0 "str ''s1''"]
    active_room_is_joined_invariant[of g0 "Leave_room (str ''r1'')" env0 "str ''s2''"]
    active_room_is_joined_invariant
      [of g0 "Send_message (str ''r1'') (str ''hello'')" env0 "str ''s2''"]
    active_room_is_joined_invariant[of g0 "Typing_start (str ''r1'')" env0 "str ''s2''"]
    active_room_is_joined_invariant[of g0 Disconnect env0 "str ''s2''"]
  by simp



end
